theory Spec2Isabelle
  imports Main
begin

section \<open>The AppTabs component (frontend/src/components/AppTabs.tsx)\<close>

text \<open>
  \<^verbatim>\<open>AppTabs\<close> is a React function component. It reads \<^verbatim>\<open>tabs\<close> and
  \<^verbatim>\<open>setNavigateCallback\<close> from the resender context, keeps one piece of state
  (\<^verbatim>\<open>activeMainTab\<close>, a string) and returns a tree of React elements. The model has
  three parts: the values that can stand as children of a JSX element, what React puts
  on the page for each of them, and the component itself (its state, its effect, its
  handlers and the tree it returns).
\<close>

subsection \<open>JSX values and what React renders for them\<close>

text \<open>
  The event handlers of the component: \<^verbatim>\<open>setActiveMainTab\<close> passed as it is
  (\<^verbatim>\<open>onValueChange\<close>, called with the new value), and an arrow function that calls it
  with a fixed value (\<^verbatim>\<open>onProxyClick\<close>, the navigate callback).
\<close>

datatype handler = SetActiveMainTab | SetActiveMainTabTo string

datatype propValue = PString string | PHandler handler

text \<open>
  A JSX child is a boolean (what \<^verbatim>\<open>cond && <e/>\<close> leaves when \<^verbatim>\<open>cond\<close> is false),
  a piece of text, a number (\<^verbatim>\<open>{tabs.length}\<close>) or an element with a tag, its props
  and its children.
\<close>

datatype jsx =
    JBool bool
  | JText string
  | JNumber nat
  | JElement string "(string \<times> propValue) list" "jsx list"

text \<open>
  JavaScript's \<^verbatim>\<open>a && b\<close> where \<^verbatim>\<open>a\<close> is a boolean: \<^verbatim>\<open>a\<close> itself when it is
  false, \<^verbatim>\<open>b\<close> otherwise.
\<close>

definition jsAnd :: "bool \<Rightarrow> jsx \<Rightarrow> jsx" where
  "jsAnd a b = (if a then b else JBool a)"

text \<open>React renders nothing for a boolean child; every other child is rendered.\<close>

fun isRendered :: "jsx \<Rightarrow> bool" where
  "isRendered (JBool _) = False"
| "isRendered _ = True"

fun childrenOf :: "jsx \<Rightarrow> jsx list" where
  "childrenOf (JElement _ _ cs) = cs"
| "childrenOf _ = []"

definition renderedChildren :: "jsx \<Rightarrow> jsx list" where
  "renderedChildren e = filter isRendered (childrenOf e)"

fun isElement :: "string \<Rightarrow> jsx \<Rightarrow> bool" where
  "isElement t (JElement t' _ _) = (t = t')"
| "isElement _ _ = False"

fun propOf :: "string \<Rightarrow> jsx \<Rightarrow> propValue option" where
  "propOf k (JElement _ ps _) = map_of ps k"
| "propOf _ _ = None"

text \<open>
  The decimal digits of a natural number, which is what React writes for a number
  child such as \<^verbatim>\<open>{tabs.length}\<close>.
\<close>

definition digitChar :: "nat \<Rightarrow> char" where
  "digitChar d = char_of (48 + d)"

function showNat :: "nat \<Rightarrow> string" where
  "showNat n = (if n < 10 then [digitChar n] else showNat (n div 10) @ [digitChar (n mod 10)])"
  by pat_completeness auto
termination
  by (relation "measure (\<lambda>n. n)") auto

declare showNat.simps [simp del]

text \<open>The text a rendered tree shows: booleans give none, elements give their children's.\<close>

fun textOf :: "jsx \<Rightarrow> string" where
  "textOf (JBool _) = []"
| "textOf (JText s) = s"
| "textOf (JNumber n) = showNat n"
| "textOf (JElement _ _ cs) = concat (map textOf cs)"

subsection \<open>State, effect and handlers\<close>

text \<open>\<^verbatim>\<open>const [activeMainTab, setActiveMainTab] = useState("home")\<close>\<close>

record AppTabsState =
  activeMainTab :: string

definition initialState :: AppTabsState where
  "initialState = \<lparr>activeMainTab = ''home''\<rparr>"

definition setActiveMainTab :: "string \<Rightarrow> AppTabsState \<Rightarrow> AppTabsState" where
  "setActiveMainTab v s = s\<lparr>activeMainTab := v\<rparr>"

text \<open>
  The arrow function \<^verbatim>\<open>() => { setActiveMainTab("resender"); }\<close> that the effect
  hands to the context.
\<close>

definition navigateCallback :: "AppTabsState \<Rightarrow> AppTabsState" where
  "navigateCallback s = setActiveMainTab ''resender'' s"

text \<open>
  \<^verbatim>\<open>useEffect(() => { setNavigateCallback(() => {...}); }, [setNavigateCallback])\<close>:
  the effect runs after the first render (and again only when the context hands out a
  different \<^verbatim>\<open>setNavigateCallback\<close>) and passes the arrow function to
  \<^verbatim>\<open>setNavigateCallback\<close>. The resender context is not part of this component, so
  its \<^verbatim>\<open>setNavigateCallback\<close> and its state are parameters. The arrow function
  closes over \<^verbatim>\<open>setActiveMainTab\<close>, so a \<^verbatim>\<open>setNavigateCallback\<close> that calls what
  it is given changes the state of the component: it therefore acts on the component's
  state and the context together.
\<close>

definition mountEffect ::
  "((AppTabsState \<Rightarrow> AppTabsState) \<Rightarrow> AppTabsState \<times> 'ctx \<Rightarrow> AppTabsState \<times> 'ctx) \<Rightarrow>
   AppTabsState \<times> 'ctx \<Rightarrow> AppTabsState \<times> 'ctx" where
  "mountEffect setNavigateCallback w = setNavigateCallback navigateCallback w"

text \<open>
  Mounting the component: the first render has the state of \<^verbatim>\<open>useState\<close>; then the
  effect runs, on that state and the context. The result is the state of the component
  and the context after the effect.
\<close>

definition mount ::
  "((AppTabsState \<Rightarrow> AppTabsState) \<Rightarrow> AppTabsState \<times> 'ctx \<Rightarrow> AppTabsState \<times> 'ctx) \<Rightarrow>
   'ctx \<Rightarrow> AppTabsState \<times> 'ctx" where
  "mount setNavigateCallback ctx = mountEffect setNavigateCallback (initialState, ctx)"

text \<open>
  Calling a handler of the tree: \<^verbatim>\<open>onValueChange\<close> is called with the value of the
  trigger that was chosen, \<^verbatim>\<open>onProxyClick\<close> ignores its argument.
\<close>

fun fire :: "handler \<Rightarrow> string \<Rightarrow> AppTabsState \<Rightarrow> AppTabsState" where
  "fire SetActiveMainTab v s = setActiveMainTab v s"
| "fire (SetActiveMainTabTo t) _ s = setActiveMainTab t s"

subsection \<open>The tree the component returns\<close>

definition triggerClass :: string where
  "triggerClass = ''data-[state=active]:bg-muted data-[state=active]:shadow-none gap-2 px-4 hover:bg-success/10 transition-colors''"

definition icon :: "string \<Rightarrow> jsx" where
  "icon name = JElement name [(''className'', PString ''h-4 w-4'')] []"

definition countBadge :: "nat \<Rightarrow> jsx" where
  "countBadge n =
     JElement ''span''
       [(''className'', PString ''ml-1 px-1.5 py-0.5 text-xs rounded-full bg-primary/20 text-primary'')]
       [JNumber n]"

definition tabsTrigger :: "string \<Rightarrow> jsx list \<Rightarrow> jsx" where
  "tabsTrigger v cs =
     JElement ''TabsTrigger'' [(''value'', PString v), (''className'', PString triggerClass)] cs"

definition homeTrigger :: jsx where
  "homeTrigger = tabsTrigger ''home'' [icon ''Home'', JText ''Home'']"

definition resenderTrigger :: "'t list \<Rightarrow> jsx" where
  "resenderTrigger tabs =
     tabsTrigger ''resender''
       [icon ''Repeat'', JText ''Resender'',
        jsAnd (length tabs > 0) (countBadge (length tabs))]"

definition proxyTrigger :: jsx where
  "proxyTrigger = tabsTrigger ''proxy'' [icon ''Globe'', JText ''Proxy'']"

definition projectTrigger :: jsx where
  "projectTrigger = tabsTrigger ''project'' [icon ''Folder'', JText ''Project'']"

definition agentTrigger :: jsx where
  "agentTrigger = tabsTrigger ''agent'' [icon ''Bot'', JText ''Agent'']"

definition tabsList :: "'t list \<Rightarrow> jsx" where
  "tabsList tabs =
     JElement ''TabsList'' [(''className'', PString ''h-12 gap-1 bg-transparent p-0'')]
       [homeTrigger, resenderTrigger tabs, proxyTrigger, projectTrigger, agentTrigger]"

definition logo :: jsx where
  "logo =
     JElement ''div'' [(''className'', PString ''flex items-center gap-2'')]
       [JElement ''span''
          [(''className'', PString ''font-logo text-2xl font-bold text-primary tracking-tight'')]
          [JText ''moxy'']]"

definition tabsContent :: "string \<Rightarrow> string \<Rightarrow> jsx" where
  "tabsContent v component =
     JElement ''TabsContent''
       [(''value'', PString v), (''className'', PString ''flex-1 mt-0 min-h-0'')]
       [JElement component [] []]"

definition AppTabs :: "'t list \<Rightarrow> AppTabsState \<Rightarrow> jsx" where
  "AppTabs tabs s =
     JElement ''Tabs''
       [(''value'', PString (activeMainTab s)),
        (''onValueChange'', PHandler SetActiveMainTab),
        (''className'', PString ''flex-1 flex flex-col min-h-0'')]
       [JElement ''div''
          [(''className'', PString ''border-b bg-card px-4 flex items-center justify-between gap-4'')]
          [JElement ''div'' [(''className'', PString ''flex items-center gap-4'')]
             [logo, tabsList tabs],
           JElement ''StatusIndicators''
             [(''onProxyClick'', PHandler (SetActiveMainTabTo ''proxy''))] []],
        tabsContent ''home'' ''HomeTab'',
        tabsContent ''resender'' ''ResenderTab'',
        tabsContent ''proxy'' ''ProxyTab'',
        tabsContent ''project'' ''ProjectTab'',
        tabsContent ''agent'' ''AgentTab'']"

text \<open>
  All the elements of a rendered tree that satisfy a test, in document order; children
  that React does not render are skipped together with everything below them.
\<close>

fun elementsWhere :: "(jsx \<Rightarrow> bool) \<Rightarrow> jsx \<Rightarrow> jsx list" where
  "elementsWhere P (JElement t ps cs) =
     (if P (JElement t ps cs) then [JElement t ps cs] else []) @
     concat (map (elementsWhere P) (filter isRendered cs))"
| "elementsWhere P _ = []"

definition isTrigger :: "string \<Rightarrow> jsx \<Rightarrow> bool" where
  "isTrigger v e = (isElement ''TabsTrigger'' e \<and> propOf ''value'' e = Some (PString v))"

section \<open>The Resender Engine and the storage unit it writes to\<close>

text \<open>
  The code of the Resender Engine and of the Project Store is not among the sources;
  the definitions of this section follow sections 3, 4.4 and 4.5 of the specification,
  and each says so.
\<close>

subsection \<open>Flows\<close>

text \<open>
  Modelled from the spec: raw bytes, and headers as an ordered list of name and value
  in which a name may occur more than once (section 3); the types' declarations are
  missing.
\<close>

type_synonym bytes = string

type_synonym headers = "(string \<times> string) list"

text \<open>
  Modelled from the spec: the failure modes of a resend (section 4.5: connection or DNS
  failure, TLS failure, timeout); the engine's own error type is missing.
\<close>

datatype ResendFailure = ConnectionFailure | DnsFailure | TlsFailure | Timeout

text \<open>
  Modelled from the spec: the two errors of section 7 that a flow lookup and a resend
  can end in; the error taxonomy's declaration is missing.
\<close>

datatype Error = FlowNotFound | ResendFailed ResendFailure

text \<open>
  Modelled from the spec: the TLS metadata of a flow (section 3: negotiated version and
  cipher, SNI host); the type's declaration is missing.
\<close>

record TlsMetadata =
  tlsVersion :: string
  tlsCipher :: string
  sniHost :: string

text \<open>
  Modelled from the spec: the connection attributes of a flow (section 3: client and
  server addresses, scheme, TLS metadata); the type's declaration is missing.
\<close>

record Connection =
  clientAddress :: string
  serverAddress :: string
  scheme :: string
  tls :: "TlsMetadata option"

text \<open>
  Modelled from the spec: the response attributes of a flow (section 3: response status,
  headers and body, time to first byte and total duration); the type's declaration is
  missing.
\<close>

record Response =
  responseStatus :: nat
  responseHeaders :: headers
  responseBody :: "bytes option"
  ttfb :: nat
  totalDuration :: nat

text \<open>
  Modelled from the spec: the Flow of section 3, with the error field of section 4.5.
  Headers are an ordered list in which a key may occur twice; a body may be absent;
  \<open>sourceFlowId\<close> is \<open>None\<close> for a captured flow. The type's declaration is missing.
\<close>

record Flow =
  flowId :: nat
  projectId :: nat
  timestamp :: nat
  connection :: Connection
  requestMethod :: string
  requestUrl :: string
  requestHeaders :: headers
  requestBody :: "bytes option"
  response :: "Response option"
  sourceFlowId :: "nat option"
  error :: "Error option"

text \<open>
  Modelled from the spec: the overrides of a resend (sections 3 and 4.5: method, URL,
  headers and body, each present or absent); the type's declaration is missing.
\<close>

record Overrides =
  ovMethod :: "string option"
  ovUrl :: "string option"
  ovHeaders :: "headers option"
  ovBody :: "bytes option"

text \<open>
  Modelled from the spec: the outgoing request that a resend builds (section 4.5); the
  type's declaration is missing.
\<close>

record Request =
  rqMethod :: string
  rqUrl :: string
  rqHeaders :: headers
  rqBody :: "bytes option"

subsection \<open>The storage unit of a project\<close>

text \<open>
  Modelled from the spec: the storage unit of one project (sections 4.4 and 6), an
  append-only sequence of flows in the order they were written; the Project Store's
  code is missing.
\<close>

type_synonym StorageUnit = "Flow list"

text \<open>
  Modelled from the spec: \<^verbatim>\<open>append(projectId, flow) -> flowId\<close> on the unit of the
  project (section 4.4). The write is one step; the id it returns is the flow's place
  in the unit, and the stored flow carries it. The Project Store's code is missing.
\<close>

definition unitAppend :: "StorageUnit \<Rightarrow> Flow \<Rightarrow> nat \<times> StorageUnit" where
  "unitAppend u flow = (length u, u @ [flow\<lparr>flowId := length u\<rparr>])"

text \<open>
  Modelled from the spec: \<^verbatim>\<open>get(projectId, flowId) -> Flow\<close> on the unit of the
  project, which fails with NotFound if the flow is absent (section 4.4). The Project
  Store's code is missing.
\<close>

definition unitGet :: "StorageUnit \<Rightarrow> nat \<Rightarrow> Error + Flow" where
  "unitGet u i = (if i < length u then Inr (u ! i) else Inl FlowNotFound)"

subsection \<open>Resend\<close>

text \<open>
  Modelled from the spec: a field of the overrides applied to the base value (section
  4.5: an override replaces, an absent field preserves the base value). The Resender
  Engine's code is missing.
\<close>

definition applyOverride :: "'a option \<Rightarrow> 'a \<Rightarrow> 'a" where
  "applyOverride ov base = (case ov of None \<Rightarrow> base | Some v \<Rightarrow> v)"

text \<open>
  Modelled from the spec: the outgoing request, built from the base flow's method, URL,
  headers and body with the overrides applied field by field (section 4.5). An
  overriding body is a body, so it replaces an absent one too. The Resender Engine's
  code is missing.
\<close>

definition buildRequest :: "Flow \<Rightarrow> Overrides \<Rightarrow> Request" where
  "buildRequest baseFlow overrides =
     \<lparr>rqMethod = applyOverride (ovMethod overrides) (requestMethod baseFlow),
      rqUrl = applyOverride (ovUrl overrides) (requestUrl baseFlow),
      rqHeaders = applyOverride (ovHeaders overrides) (requestHeaders baseFlow),
      rqBody = (case ovBody overrides of None \<Rightarrow> requestBody baseFlow | Some b \<Rightarrow> Some b)\<rparr>"

text \<open>
  Modelled from the spec: \<^verbatim>\<open>resend(baseFlow, overrides) -> Flow\<close> (section 4.5). It
  builds the request, sends it, and persists the exchange in the base flow's storage
  unit as a new flow with \<open>sourceFlowId\<close> the base flow's id. The network is the
  parameter \<open>send\<close>: for a request it gives the connection that was used and either
  the failure of the attempt or the full response. The clock is the parameter \<open>now\<close>.
  A failed attempt is a flow too: it has no response and carries the error. The
  Resender Engine's code is missing.
\<close>

definition resend ::
  "(Request \<Rightarrow> Connection \<times> (ResendFailure + Response)) \<Rightarrow> nat \<Rightarrow>
   Flow \<Rightarrow> Overrides \<Rightarrow> StorageUnit \<Rightarrow> Flow \<times> StorageUnit" where
  "resend send now baseFlow overrides u =
     (let request = buildRequest baseFlow overrides;
          (conn, outcome) = send request;
          flow = \<lparr>flowId = 0,
                  projectId = projectId baseFlow,
                  timestamp = now,
                  connection = conn,
                  requestMethod = rqMethod request,
                  requestUrl = rqUrl request,
                  requestHeaders = rqHeaders request,
                  requestBody = rqBody request,
                  response = (case outcome of Inl _ \<Rightarrow> None | Inr r \<Rightarrow> Some r),
                  sourceFlowId = Some (flowId baseFlow),
                  error = (case outcome of Inl e \<Rightarrow> Some (ResendFailed e) | Inr _ \<Rightarrow> None)\<rparr>;
          (newId, u') = unitAppend u flow
      in (flow\<lparr>flowId := newId\<rparr>, u'))"

subsection \<open>A captured flow and a resend of it\<close>

text \<open>
  The scenario of section 8 of the specification: \<^verbatim>\<open>GET https://example.test/login\<close>
  with \<^verbatim>\<open>Authorization: Bearer abc\<close> was captured, and is resent with the header
  overridden to \<^verbatim>\<open>Bearer def\<close> against a target that answers 200.
\<close>

definition capturedLogin :: Flow where
  "capturedLogin =
     \<lparr>flowId = 0, projectId = 1, timestamp = 100,
      connection =
        \<lparr>clientAddress = ''127.0.0.1:50000'', serverAddress = ''192.0.2.10:443'',
         scheme = ''https'',
         tls = Some \<lparr>tlsVersion = ''TLSv1.3'', tlsCipher = ''TLS_AES_128_GCM_SHA256'',
                     sniHost = ''example.test''\<rparr>\<rparr>,
      requestMethod = ''GET'',
      requestUrl = ''https://example.test/login'',
      requestHeaders = [(''Authorization'', ''Bearer abc'')],
      requestBody = None,
      response = Some \<lparr>responseStatus = 401, responseHeaders = [], responseBody = None,
                        ttfb = 12, totalDuration = 15\<rparr>,
      sourceFlowId = None,
      error = None\<rparr>"

definition bearerDef :: Overrides where
  "bearerDef =
     \<lparr>ovMethod = None, ovUrl = None,
      ovHeaders = Some [(''Authorization'', ''Bearer def'')], ovBody = None\<rparr>"

definition answers200 :: "Request \<Rightarrow> Connection \<times> (ResendFailure + Response)" where
  "answers200 request =
     (\<lparr>clientAddress = ''127.0.0.1:50001'', serverAddress = ''192.0.2.10:443'',
       scheme = ''https'', tls = None\<rparr>,
      Inr \<lparr>responseStatus = 200, responseHeaders = rqHeaders request,
           responseBody = rqBody request, ttfb = 3, totalDuration = 4\<rparr>)"

section \<open>Properties of the AppTabs component\<close>

lemma showNat_3: "showNat (Suc (Suc (Suc 0))) = ''3''"
  by code_simp

lemmas trigger_defs =
  resenderTrigger_def tabsTrigger_def icon_def jsAnd_def countBadge_def

text \<open>
  Claim C9. On every render of \<^verbatim>\<open>AppTabs\<close>, the tree has one trigger with the value
  \<^verbatim>\<open>resender\<close>; the count badge (the only \<^verbatim>\<open>span\<close> in that trigger) is rendered
  if and only if the \<^verbatim>\<open>tabs\<close> list of the resender context is not empty, and when it
  is rendered its text is \<^verbatim>\<open>tabs.length\<close>, in decimal.
\<close>

theorem resender_badge_iff_tabs:
  "elementsWhere (isTrigger ''resender'') (AppTabs tabs s) = [resenderTrigger tabs] \<and>
   elementsWhere (isElement ''span'') (resenderTrigger tabs) =
     (if tabs = [] then [] else [countBadge (length tabs)]) \<and>
   (countBadge (length tabs) \<in> set (renderedChildren (resenderTrigger tabs))) = (tabs \<noteq> []) \<and>
   textOf (countBadge (length tabs)) = showNat (length tabs)"
proof -
  have "elementsWhere (isTrigger ''resender'') (AppTabs tabs s) = [resenderTrigger tabs]"
    by (simp add: AppTabs_def tabsList_def logo_def tabsContent_def isTrigger_def
        homeTrigger_def proxyTrigger_def projectTrigger_def agentTrigger_def trigger_defs)
  moreover have "elementsWhere (isElement ''span'') (resenderTrigger tabs) =
      (if tabs = [] then [] else [countBadge (length tabs)])"
    by (simp add: trigger_defs)
  moreover have
    "(countBadge (length tabs) \<in> set (renderedChildren (resenderTrigger tabs))) = (tabs \<noteq> [])"
    by (simp add: renderedChildren_def trigger_defs)
  moreover have "textOf (countBadge (length tabs)) = showNat (length tabs)"
    by (simp add: countBadge_def)
  ultimately show ?thesis by blast
qed

theorem resender_badge_iff_tabs_witness:
  "elementsWhere (isElement ''span'') (resenderTrigger [''t1'', ''t2'', ''t3'']) = [countBadge 3] \<and>
   textOf (countBadge 3) = ''3'' \<and>
   elementsWhere (isElement ''span'') (resenderTrigger ([] :: string list)) = []"
  using resender_badge_iff_tabs [where tabs = "[''t1'', ''t2'', ''t3'']" and s = initialState]
    resender_badge_iff_tabs [where tabs = "[] :: string list" and s = initialState]
  by (simp add: showNat_3 numeral_3_eq_3)

text \<open>
  Claim C10. The active main tab starts as \<^verbatim>\<open>home\<close>, so the first render shows that
  tab. Mounting the component runs the resender context's \<^verbatim>\<open>setNavigateCallback\<close>,
  whatever it does with its argument, on the initial state and the context, and hands it
  a callback which, invoked in any state, sets the active main tab to \<^verbatim>\<open>resender\<close>,
  so the next render shows the resender tab.
\<close>

theorem navigate_callback_sets_resender:
  "activeMainTab initialState = ''home'' \<and>
   propOf ''value'' (AppTabs tabs initialState) = Some (PString ''home'') \<and>
   mount setNavigateCallback ctx = setNavigateCallback navigateCallback (initialState, ctx) \<and>
   activeMainTab (navigateCallback s) = ''resender'' \<and>
   propOf ''value'' (AppTabs tabs (navigateCallback s)) = Some (PString ''resender'')"
  by (simp add: initialState_def mount_def mountEffect_def navigateCallback_def
      setActiveMainTab_def AppTabs_def)

text \<open>
  Two contexts. One stores the callback it is given: the mount leaves the home tab
  active, and calling the stored callback once the proxy tab is active leads to the
  resender tab. The other calls the callback at once: the mount itself leaves the
  resender tab active.
\<close>

theorem navigate_callback_sets_resender_witness:
  "(case mount (\<lambda>cb (s, _). (s, Some cb)) None of
      (s, None) \<Rightarrow> False
    | (s, Some cb) \<Rightarrow>
        activeMainTab s = ''home'' \<and>
        activeMainTab (cb (fire (SetActiveMainTabTo ''proxy'') [] s)) = ''resender'') \<and>
   activeMainTab (fst (mount (\<lambda>cb (s, c). (cb s, c)) ())) = ''resender''"
  using navigate_callback_sets_resender
    [where setNavigateCallback = "\<lambda>cb (s, _). (s, Some cb)" and ctx = None
       and s = "fire (SetActiveMainTabTo ''proxy'') [] initialState"
       and tabs = "[] :: string list"]
    navigate_callback_sets_resender
    [where setNavigateCallback = "\<lambda>cb (s, c). (cb s, c)" and ctx = "()"
       and s = initialState and tabs = "[] :: string list"]
  by simp

section \<open>Properties of the Resender Engine\<close>

lemma unitGet_append_old:
  "unitGet u i = Inr f \<Longrightarrow> unitGet (u @ [g]) i = Inr f"
  by (auto simp: unitGet_def nth_append split: if_splits)

lemma unitGet_append_new:
  "unitGet (u @ [g]) (length u) = Inr g"
  by (simp add: unitGet_def)

lemma unitGet_beyond:
  "unitGet u (length u) = Inl FlowNotFound"
  by (simp add: unitGet_def)

text \<open>
  Claim C1. For every base flow and every overrides record, \<^verbatim>\<open>resend\<close> returns a new
  flow: each of method, URL, headers and body is the override where the overrides have
  one and the base flow's value where they have none; its \<open>sourceFlowId\<close> is the base
  flow's id; its id was not in use before the call and holds the new flow after it;
  and every flow that was persisted before the call, the base flow among them, is read
  back unchanged after it.
\<close>

theorem resend_applies_overrides:
  assumes "resend send now baseFlow overrides u = (flow, u')"
  shows "(case ovMethod overrides of
            None \<Rightarrow> requestMethod flow = requestMethod baseFlow
          | Some m \<Rightarrow> requestMethod flow = m) \<and>
         (case ovUrl overrides of
            None \<Rightarrow> requestUrl flow = requestUrl baseFlow
          | Some v \<Rightarrow> requestUrl flow = v) \<and>
         (case ovHeaders overrides of
            None \<Rightarrow> requestHeaders flow = requestHeaders baseFlow
          | Some h \<Rightarrow> requestHeaders flow = h) \<and>
         (case ovBody overrides of
            None \<Rightarrow> requestBody flow = requestBody baseFlow
          | Some b \<Rightarrow> requestBody flow = Some b) \<and>
         sourceFlowId flow = Some (flowId baseFlow) \<and>
         unitGet u (flowId flow) = Inl FlowNotFound \<and>
         unitGet u' (flowId flow) = Inr flow \<and>
         (\<forall>i f. unitGet u i = Inr f \<longrightarrow> unitGet u' i = Inr f)"
proof -
  obtain conn outcome where "send (buildRequest baseFlow overrides) = (conn, outcome)"
    by (cases "send (buildRequest baseFlow overrides)")
  with assms have written: "flowId flow = length u" "u' = u @ [flow]"
    and built:
      "requestMethod flow = rqMethod (buildRequest baseFlow overrides)"
      "requestUrl flow = rqUrl (buildRequest baseFlow overrides)"
      "requestHeaders flow = rqHeaders (buildRequest baseFlow overrides)"
      "requestBody flow = rqBody (buildRequest baseFlow overrides)"
    and source: "sourceFlowId flow = Some (flowId baseFlow)"
    by (auto simp: resend_def unitAppend_def Let_def)
  have "\<forall>i f. unitGet u i = Inr f \<longrightarrow> unitGet u' i = Inr f"
    using written by (simp add: unitGet_append_old)
  moreover have "unitGet u (flowId flow) = Inl FlowNotFound"
    using written by (simp add: unitGet_beyond)
  moreover have "unitGet u' (flowId flow) = Inr flow"
    using written by (simp add: unitGet_append_new)
  ultimately show ?thesis
    using built source
    by (simp add: buildRequest_def applyOverride_def split: option.splits)
qed

theorem resend_applies_overrides_witness:
  "(let (flow, u') = resend answers200 200 capturedLogin bearerDef [capturedLogin]
    in requestMethod flow = ''GET'' \<and>
       requestUrl flow = ''https://example.test/login'' \<and>
       requestHeaders flow = [(''Authorization'', ''Bearer def'')] \<and>
       requestBody flow = None \<and>
       sourceFlowId flow = Some 0 \<and>
       flowId flow = 1 \<and>
       unitGet u' 1 = Inr flow \<and>
       unitGet u' 0 = Inr capturedLogin \<and>
       requestHeaders capturedLogin = [(''Authorization'', ''Bearer abc'')])"
proof -
  obtain flow u' where
    r: "resend answers200 200 capturedLogin bearerDef [capturedLogin] = (flow, u')"
    by (cases "resend answers200 200 capturedLogin bearerDef [capturedLogin]")
  have stored: "unitGet [capturedLogin] 0 = Inr capturedLogin"
    by (simp add: unitGet_def)
  have new: "flowId flow = 1"
    using r by (auto simp: resend_def unitAppend_def answers200_def Let_def)
  from resend_applies_overrides [OF r] stored new
  have "requestMethod flow = requestMethod capturedLogin"
    and "requestUrl flow = requestUrl capturedLogin"
    and "requestHeaders flow = [(''Authorization'', ''Bearer def'')]"
    and "requestBody flow = requestBody capturedLogin"
    and "sourceFlowId flow = Some (flowId capturedLogin)"
    and "unitGet u' 1 = Inr flow"
    and "unitGet u' 0 = Inr capturedLogin"
    by (simp_all add: bearerDef_def)
  then show ?thesis
    using r new by (simp add: capturedLogin_def)
qed

end
